theory Spec2Isabelle
  imports Complex_Main "HOL-Library.Word" "HOL-Library.AList" "HOL-Library.Signed_Division"
begin

section \<open>Go string helpers used by the aggregation service\<close>

text \<open>
  Go strings are byte strings; they are modelled as \<open>string\<close> (lists of 8-bit characters).
  The helpers below follow the Go standard library functions that
  \<^verbatim>\<open>svc-aggregation/system/common.go\<close> calls. \<open>EqualFold\<close> is modelled on ASCII
  letters only (Redfish paths and keys are ASCII); Go additionally folds the two Unicode
  characters U+017F and U+212A onto s and k.
\<close>

definition toLowerASCII :: "char \<Rightarrow> char" where
  "toLowerASCII c =
     (let n = (of_char c :: nat) in if 65 \<le> n \<and> n \<le> 90 then char_of (n + 32) else c)"

definition EqualFold :: "string \<Rightarrow> string \<Rightarrow> bool" where
  "EqualFold s t \<longleftrightarrow> map toLowerASCII s = map toLowerASCII t"

definition HasSuffix :: "string \<Rightarrow> string \<Rightarrow> bool" where
  "HasSuffix s suf \<longleftrightarrow> length suf \<le> length s \<and> drop (length s - length suf) s = suf"

definition HasPrefix :: "string \<Rightarrow> string \<Rightarrow> bool" where
  "HasPrefix s pre \<longleftrightarrow> take (length pre) s = pre"

definition TrimSuffix :: "string \<Rightarrow> string \<Rightarrow> string" where
  "TrimSuffix s suf = (if HasSuffix s suf then take (length s - length suf) s else s)"

text \<open>\<open>strings.Contains\<close>: some suffix of \<open>s\<close> starts with \<open>sub\<close>.\<close>

fun Contains :: "string \<Rightarrow> string \<Rightarrow> bool" where
  "Contains [] sub = (sub = [])"
| "Contains (c # cs) sub = (HasPrefix (c # cs) sub \<or> Contains cs sub)"

text \<open>
  \<open>strings.Replace(s, old, new, -1)\<close> for a non-empty \<open>old\<close>: every non-overlapping
  occurrence, left to right. For an empty \<open>old\<close> Go inserts \<open>new\<close> before every
  character and at the end.
\<close>

function ReplaceAll :: "string \<Rightarrow> string \<Rightarrow> string \<Rightarrow> string" where
  "ReplaceAll s old new =
     (if old = [] then concat (map (\<lambda>c. new @ [c]) s) @ new
      else if s = [] then []
      else if HasPrefix s old then new @ ReplaceAll (drop (length old) s) old new
      else hd s # ReplaceAll (tl s) old new)"
  by pat_completeness auto
termination
  by (relation "measure (\<lambda>(s, old, new). length s)") (auto simp: HasPrefix_def)

declare ReplaceAll.simps [simp del]

text \<open>\<open>strings.Split(s, sep)\<close> for a separator of one character, and \<open>strings.Join\<close>.\<close>

fun SplitChar :: "char \<Rightarrow> string \<Rightarrow> string list" where
  "SplitChar sep [] = [[]]"
| "SplitChar sep (c # cs) =
     (if c = sep then [] # SplitChar sep cs
      else (case SplitChar sep cs of w # ws \<Rightarrow> (c # w) # ws | [] \<Rightarrow> [[c]]))"

fun Join :: "string list \<Rightarrow> string \<Rightarrow> string" where
  "Join [] sep = []"
| "Join [w] sep = w"
| "Join (w # v # ws) sep = w @ sep @ Join (v # ws) sep"

section \<open>Telemetry collections: \<open>getSuperSet\<close>\<close>

text \<open>
  \<open>dmtf.Link\<close> holds the \<open>@odata.id\<close> of a member. The members of a collection are
  \<open>[]*dmtf.Link\<close>: a pointer may be nil (a JSON \<open>null\<close> member), modelled by \<open>None\<close>.
\<close>

record Link =
  Oid :: string

text \<open>
  The loop of \<open>getSuperSet\<close> over the appended slice. \<open>existing\<close> is the Go
  \<open>map[string]bool\<close>, whose lookup of a missing key is \<open>false\<close>. Reading \<open>.Oid\<close>
  through a nil pointer panics: the result is \<open>None\<close>.
\<close>

fun getSuperSet_loop ::
  "Link option list \<Rightarrow> (string \<Rightarrow> bool) \<Rightarrow> Link option list \<Rightarrow> Link option list option" where
  "getSuperSet_loop [] existing result = Some result"
| "getSuperSet_loop (None # rest) existing result = None"
| "getSuperSet_loop (Some l # rest) existing result =
     (if \<not> existing (Oid l)
      then getSuperSet_loop rest (existing(Oid l := True)) (result @ [Some l])
      else getSuperSet_loop rest existing result)"

definition getSuperSet :: "Link option list \<Rightarrow> Link option list \<Rightarrow> Link option list option" where
  "getSuperSet telemetryInfo resourceData =
     getSuperSet_loop (telemetryInfo @ resourceData) (\<lambda>_. False) []"

text \<open>The identifiers of a member list without nil members, in order.\<close>

definition oids :: "Link option list \<Rightarrow> string list" where
  "oids xs = map (\<lambda>p. Oid (the p)) xs"

section \<open>Resource keys: \<open>keyFormation\<close>\<close>

text \<open>
  \<open>pathSegments\<close> is the first part of \<open>keyFormation\<close>: one trailing separator is cut
  off and the path is split at \<open>/\<close>. The source reads \<open>oid[len(oid)-1:]\<close>, which panics
  on the empty string; \<open>keyFormation\<close> checks for that before it calls \<open>pathSegments\<close>.
\<close>

definition pathSegments :: "string \<Rightarrow> string list" where
  "pathSegments oid =
     SplitChar (CHR ''/'') (if drop (length oid - 1) oid = ''/'' then take (length oid - 1) oid else oid)"

definition ownerCollection :: "string \<Rightarrow> bool" where
  "ownerCollection prev \<longleftrightarrow>
     EqualFold prev ''Systems'' \<or> EqualFold prev ''Chassis'' \<or> EqualFold prev ''Managers''
     \<or> EqualFold prev ''FirmwareInventory'' \<or> EqualFold prev ''SoftwareInventory''"

text \<open>
  The loop \<open>for i, id := range str\<close>, over the indices still to visit. When \<open>id\<close>
  equals \<open>systemID\<close> at index 0, the source evaluates \<open>str[i-1]\<close> with \<open>i = 0\<close>:
  index out of range, a panic (\<open>None\<close>).
\<close>

fun keyFormation_loop ::
  "string list \<Rightarrow> string \<Rightarrow> string \<Rightarrow> nat list \<Rightarrow> string list \<Rightarrow> string list option" where
  "keyFormation_loop str systemID deviceUUID [] key = Some key"
| "keyFormation_loop str systemID deviceUUID (i # rest) key =
     (let id = str ! i in
      if id = systemID \<and> i = 0 then None
      else if id = systemID \<and> ownerCollection (str ! (i - 1))
        then keyFormation_loop str systemID deviceUUID rest (key @ [deviceUUID @ ''.'' @ id])
      else if i \<noteq> 0 \<and> EqualFold (str ! (i - 1)) ''Licenses''
        then keyFormation_loop str systemID deviceUUID rest (key @ [deviceUUID @ ''.'' @ id])
      else keyFormation_loop str systemID deviceUUID rest (key @ [id]))"

definition keyFormation :: "string \<Rightarrow> string \<Rightarrow> string \<Rightarrow> string option" where
  "keyFormation oid systemID deviceUUID =
     (if oid = [] then None
      else let str = pathSegments oid in
        map_option (\<lambda>key. Join key ''/'')
          (keyFormation_loop str systemID deviceUUID [0..<length str] []))"

text \<open>
  What the loop appends for index \<open>i\<close> when it does not panic; used to state the
  loop's result in closed form.
\<close>

definition keySegment :: "string list \<Rightarrow> string \<Rightarrow> string \<Rightarrow> nat \<Rightarrow> string" where
  "keySegment str systemID deviceUUID i =
     (if str ! i = systemID \<and> ownerCollection (str ! (i - 1)) then deviceUUID @ ''.'' @ str ! i
      else if i \<noteq> 0 \<and> EqualFold (str ! (i - 1)) ''Licenses'' then deviceUUID @ ''.'' @ str ! i
      else str ! i)"



section \<open>The plugin contact: \<open>callPlugin\<close> and \<open>contactPlugin\<close>\<close>

type_synonym int32 = "32 word"

text \<open>\<open>agmodel.Plugin\<close> and \<open>getResourceRequest\<close>, with the fields the functions below read.\<close>

record Plugin =
  IP :: string
  Port :: string
  PreferredAuthType :: string

record getResourceRequest =
  SystemID :: string
  DeviceUUID :: string
  DeviceInfo :: "(string \<times> string) list"
  LoginCredentials :: "(string \<times> string) list"
  ParentOID :: string
  OID :: string
  OemFlag :: bool
  ReqPlugin :: Plugin
  HTTPMethodType :: string
  Token :: string
  StatusPoll :: bool
  UpdateFlag :: bool
  BMCAddress :: string

text \<open>
  The status messages of package \<open>response\<close> that \<open>common.go\<close> assigns. Their string
  values are not part of the sources at hand; \<open>NoStatusMessage\<close> is the zero value.
\<close>

datatype statusMessage =
    NoStatusMessage
  | CouldNotEstablishConnection
  | InternalError
  | ResourceAtURIUnauthorized
  | ActionNotSupported
  | ResourceAlreadyExists

record responseStatus =
  StatusCode :: int32
  StatusMessage :: statusMessage
  MsgArgs :: "string list"

definition zeroResponseStatus :: responseStatus where
  "zeroResponseStatus = \<lparr>StatusCode = 0, StatusMessage = NoStatusMessage, MsgArgs = []\<rparr>"

text \<open>
  The arguments of one call of \<open>ContactClient\<close> (URL, method, token, \<open>@odata.id\<close>, body,
  credentials; \<open>None\<close> is the nil map), and what comes back: an error, or a response with
  its status code, its header lookup and its body, whose reading by \<open>ioutil.ReadAll\<close> can
  fail (\<open>Inl\<close>).
\<close>

record clientCall =
  callURL :: string
  callMethod :: string
  callToken :: string
  callOdataID :: string
  callBody :: "(string \<times> string) list"
  callCredentials :: "(string \<times> string) list option"

record httpResponse =
  RespStatusCode :: int
  RespHeaderGet :: "string \<Rightarrow> string"
  RespBody :: "string + string"

text \<open>
  Everything outside the process is reached through function values of \<open>ExternalInterface\<close>
  and of the request. The model keeps the sequence of these calls, each with the outcome
  the caller branches on, and takes the collaborators as functions of the calls made so
  far: a collaborator may answer the same call differently the second time.
\<close>

datatype event =
    EvContactClient clientCall
  | EvGetPluginStatus Plugin bool
  | EvGetResource string string
  | EvCheckMetricRequest string "bool option"
  | EvGenericSave "string option" string string bool
  | EvDeleteMetricRequest string bool

type_synonym history = "event list"

text \<open>
  JSON values as \<open>encoding/json\<close> decodes them into \<open>interface{}\<close>: an object is a Go map,
  written here as the list of its entries in the order a \<open>range\<close> over it visits them
  (keys are distinct; Go leaves the order open, so every order of the list is possible).
  Numbers are \<open>float64\<close> in Go and rationals here: rounding is not modelled.
\<close>

datatype json =
    JNull
  | JBool bool
  | JNum rat
  | JStr string
  | JArr "json list"
  | JObj "(string \<times> json) list"

text \<open>
  The collaborators and the configuration. \<open>Unmarshal\<close> is \<open>json.Unmarshal\<close> (\<open>Inl\<close>:
  its error) and \<open>Marshal\<close> is \<open>json.Marshal\<close> of an object. \<open>FormWildCard\<close> stands for the function
  \<open>formWildCard\<close>, which is not unfolded here: it returns \<open>None\<close> for a panic, an error
  or the new document text. \<open>RangeOrder\<close> is the order in which a \<open>range\<close> visits the
  entries of the link map.
\<close>

record env =
  ContactClient :: "history \<Rightarrow> clientCall \<Rightarrow> string + httpResponse"
  GetPluginStatus :: "history \<Rightarrow> Plugin \<Rightarrow> bool"
  GetResource :: "history \<Rightarrow> string \<Rightarrow> string \<Rightarrow> string"
  CheckMetricRequest :: "history \<Rightarrow> string \<Rightarrow> string + bool"
  GenericSave :: "history \<Rightarrow> string option \<Rightarrow> string \<Rightarrow> string \<Rightarrow> string option"
  DeleteMetricRequest :: "history \<Rightarrow> string \<Rightarrow> string option"
  Unmarshal :: "string \<Rightarrow> string + json"
  Marshal :: "(string \<times> json) list \<Rightarrow> string"
  FormWildCard :: "string \<Rightarrow> json \<Rightarrow> (string + string) option"
  SouthBoundURL :: "(string \<times> string) list"
  NorthBoundURL :: "(string \<times> string) list"
  SkipResourceListUnderSystem :: "string list"
  SkipResourceListUnderOthers :: "string list"
  RangeOrder :: "(string \<times> bool) list \<Rightarrow> (string \<times> bool) list"

definition southBoundURL :: string where
  "southBoundURL = ''southboundurl''"

definition northBoundURL :: string where
  "northBoundURL = ''northboundurl''"

definition getTranslationURL :: "env \<Rightarrow> string \<Rightarrow> (string \<times> string) list" where
  "getTranslationURL e translationURL =
     (if translationURL = southBoundURL then SouthBoundURL e else NorthBoundURL e)"

text \<open>
  The loop of \<open>callPlugin\<close> over the southbound table: every iteration assigns
  \<open>strings.Replace(req.OID, key, value, -1)\<close> to \<open>oid\<close>, starting from \<open>req.OID\<close>.
\<close>

fun callPlugin_loop :: "(string \<times> string) list \<Rightarrow> string \<Rightarrow> string \<Rightarrow> string" where
  "callPlugin_loop [] reqOID oid = oid"
| "callPlugin_loop ((key, val) # rest) reqOID oid =
     callPlugin_loop rest reqOID (ReplaceAll reqOID key val)"

definition callPlugin ::
  "env \<Rightarrow> history \<Rightarrow> getResourceRequest \<Rightarrow> history \<times> (string + httpResponse)" where
  "callPlugin e w req =
     (let oid = callPlugin_loop (getTranslationURL e southBoundURL) (OID req) [];
          reqURL = ''https://'' @ IP (ReqPlugin req) @ '':'' @ Port (ReqPlugin req) @ oid;
          call =
            (if EqualFold (PreferredAuthType (ReqPlugin req)) ''BasicAuth''
             then \<lparr>callURL = reqURL, callMethod = HTTPMethodType req, callToken = [],
                   callOdataID = oid, callBody = DeviceInfo req,
                   callCredentials = Some (LoginCredentials req)\<rparr>
             else \<lparr>callURL = reqURL, callMethod = HTTPMethodType req, callToken = Token req,
                   callOdataID = oid, callBody = DeviceInfo req, callCredentials = None\<rparr>)
      in (w @ [EvContactClient call], ContactClient e w call))"

text \<open>The loop of \<open>contactPlugin\<close> over the northbound table rewrites \<open>data\<close> step by step.\<close>

fun northBound_loop :: "(string \<times> string) list \<Rightarrow> string \<Rightarrow> string" where
  "northBound_loop [] data = data"
| "northBound_loop ((key, val) # rest) data = northBound_loop rest (ReplaceAll data key val)"

text \<open>
  \<open>contactPlugin\<close> returns the body (\<open>None\<close> is nil), the token or location, the response
  status and the error (\<open>None\<close> is nil). \<open>fmt.Errorf\<close> is applied to the message as its
  format; the error is modelled by the message.
\<close>

type_synonym contactResult = "string option \<times> string \<times> responseStatus \<times> string option"

definition contactPlugin_retry ::
  "env \<Rightarrow> history \<Rightarrow> getResourceRequest \<Rightarrow> history \<times> (string + httpResponse)" where
  "contactPlugin_retry e w req =
     (case callPlugin e w req of
        (w1, Inr pluginResp) \<Rightarrow> (w1, Inr pluginResp)
      | (w1, Inl err) \<Rightarrow>
          (if StatusPoll req then
             (let alive = GetPluginStatus e w1 (ReqPlugin req);
                  w2 = w1 @ [EvGetPluginStatus (ReqPlugin req) alive]
              in if alive then callPlugin e w2 req else (w2, Inl err))
           else (w1, Inl err)))"

definition contactPlugin ::
  "env \<Rightarrow> history \<Rightarrow> getResourceRequest \<Rightarrow> string \<Rightarrow> history \<times> contactResult" where
  "contactPlugin e w req errorMessage =
     (case contactPlugin_retry e w req of
        (w', Inl err) \<Rightarrow>
          (w', None, [],
           \<lparr>StatusCode = 503, StatusMessage = CouldNotEstablishConnection,
            MsgArgs = [''https://'' @ IP (ReqPlugin req) @ '':'' @ Port (ReqPlugin req) @ OID req]\<rparr>,
           Some (errorMessage @ err))
      | (w', Inr pluginResp) \<Rightarrow>
          (case RespBody pluginResp of
             Inl err \<Rightarrow>
               (w', None, [],
                \<lparr>StatusCode = 500, StatusMessage = InternalError, MsgArgs = []\<rparr>,
                Some (''error while trying to read plugin response body: '' @ err))
           | Inr body \<Rightarrow>
               (if RespStatusCode pluginResp \<noteq> 201 \<and> RespStatusCode pluginResp \<noteq> 200
                   \<and> RespStatusCode pluginResp \<noteq> 202
                then
                  (if RespStatusCode pluginResp = 401
                   then (w', None, [],
                         \<lparr>StatusCode = word_of_int (RespStatusCode pluginResp),
                          StatusMessage = ResourceAtURIUnauthorized,
                          MsgArgs = [''https://'' @ IP (ReqPlugin req) @ '':''
                                     @ Port (ReqPlugin req) @ OID req]\<rparr>,
                         Some (errorMessage @ ''error: invalid resource username/password''))
                   else (w', Some body, [],
                         \<lparr>StatusCode = word_of_int (RespStatusCode pluginResp),
                          StatusMessage = InternalError, MsgArgs = []\<rparr>,
                         Some (errorMessage @ body)))
                else
                  (let data = northBound_loop (getTranslationURL e northBoundURL) body;
                       resp = \<lparr>StatusCode = word_of_int (RespStatusCode pluginResp),
                               StatusMessage = NoStatusMessage, MsgArgs = []\<rparr>
                   in if RespStatusCode pluginResp = 202
                      then (w', Some data, RespHeaderGet pluginResp ''Location'', resp, None)
                      else (w', Some data, RespHeaderGet pluginResp ''X-Auth-Token'', resp, None)))))"

section \<open>Namespacing a document body: \<open>updateResourceDataWithUUID\<close>\<close>

definition updateResourceDataWithUUID :: "string \<Rightarrow> string \<Rightarrow> string" where
  "updateResourceDataWithUUID resourceData uuid =
     (let d1 = ReplaceAll resourceData ''/redfish/v1/Systems/'' (''/redfish/v1/Systems/'' @ uuid @ ''.'');
          d2 = ReplaceAll d1 ''/redfish/v1/systems/'' (''/redfish/v1/Systems/'' @ uuid @ ''.'');
          d3 = ReplaceAll d2 ''/redfish/v1/Managers/'' (''/redfish/v1/Managers/'' @ uuid @ ''.'');
          d4 = ReplaceAll d3 ''/redfish/v1/Chassis/'' (''/redfish/v1/Chassis/'' @ uuid @ ''.'')
      in ReplaceAll d4 ''/redfish/v1/chassis/'' (''/redfish/v1/Chassis/'' @ uuid @ ''.''))"

section \<open>Resource names: \<open>getResourceName\<close>\<close>

text \<open>
  \<open>strconv.Atoi\<close> succeeds on an optional sign followed by decimal digits whose value fits
  the 64-bit \<open>int\<close>.
\<close>

definition isDigit :: "char \<Rightarrow> bool" where
  "isDigit c \<longleftrightarrow> 48 \<le> (of_char c :: nat) \<and> (of_char c :: nat) \<le> 57"

definition digitsValue :: "string \<Rightarrow> int" where
  "digitsValue ds = foldl (\<lambda>acc c. 10 * acc + (int (of_char c) - 48)) 0 ds"

definition AtoiOk :: "string \<Rightarrow> bool" where
  "AtoiOk s =
     (let neg = (s \<noteq> [] \<and> hd s = CHR ''-'');
          ds = (if s \<noteq> [] \<and> (hd s = CHR ''-'' \<or> hd s = CHR ''+'') then tl s else s)
      in ds \<noteq> [] \<and> list_all isDigit ds
         \<and> (if neg then digitsValue ds \<le> 2 ^ 63 else digitsValue ds < 2 ^ 63))"

text \<open>
  \<open>str[len(str)-2]\<close> is out of range when the path has no separator: a panic (\<open>None\<close>).
\<close>

definition getResourceName :: "string \<Rightarrow> bool \<Rightarrow> string option" where
  "getResourceName oDataID memberFlag =
     (let str = SplitChar (CHR ''/'') oDataID in
      if memberFlag then Some (last str @ ''Collection'')
      else if length str < 2 then None
      else if AtoiOk (str ! (length str - 2)) then Some (last str)
      else Some (str ! (length str - 2)))"

section \<open>Telemetry members: \<open>getTeleInfo\<close>\<close>




text \<open>The events of the plugin contact itself: the client calls and the liveness probes.\<close>

definition pluginEvent :: "event \<Rightarrow> bool" where
  "pluginEvent ev = (case ev of EvContactClient c \<Rightarrow> True | EvGetPluginStatus p b \<Rightarrow> True | _ \<Rightarrow> False)"


section \<open>Link extraction: \<open>getLinks\<close>, \<open>checkRetrieval\<close>, \<open>removeRetrievalLinks\<close>\<close>

text \<open>
  \<open>retrievalLinks\<close> is a Go \<open>map[string]bool\<close>, kept as the list of its entries; an
  assignment \<open>m[k] = v\<close> is \<open>AList.update k v m\<close>.

  \<open>getLinks\<close> ranges over the entries of \<open>data\<close>. The parameter \<open>oemFlag\<close> is assigned
  inside the loop, so the value set for one entry is the one the later entries of the
  same object see. A value under \<open>@odata.id\<close> that is neither an object nor an array is
  asserted to be a string: anything else panics (\<open>None\<close>). \<open>getLinks_members\<close> is the
  inner loop over the elements of an array; it hands the flag back to the outer loop.
\<close>

fun getLinks ::
  "(string \<times> json) list \<Rightarrow> (string \<times> bool) list \<Rightarrow> bool \<Rightarrow> (string \<times> bool) list option"
and getLinks_members ::
  "string \<Rightarrow> json list \<Rightarrow> (string \<times> bool) list \<Rightarrow> bool \<Rightarrow> ((string \<times> bool) list \<times> bool) option"
where
  "getLinks [] retrievalLinks oemFlag = Some retrievalLinks"
| "getLinks ((key, JObj m) # rest) retrievalLinks oemFlag =
     (let oemFlag' = (if EqualFold key ''Oem'' then True else oemFlag) in
      case getLinks m retrievalLinks oemFlag' of
        None \<Rightarrow> None
      | Some retrievalLinks' \<Rightarrow> getLinks rest retrievalLinks' oemFlag')"
| "getLinks ((key, JArr memberData) # rest) retrievalLinks oemFlag =
     (case getLinks_members key memberData retrievalLinks oemFlag of
        None \<Rightarrow> None
      | Some (retrievalLinks', oemFlag') \<Rightarrow> getLinks rest retrievalLinks' oemFlag')"
| "getLinks ((key, JStr s) # rest) retrievalLinks oemFlag =
     (if key = ''@odata.id''
      then getLinks rest (AList.update (TrimSuffix s ''/'') oemFlag retrievalLinks) oemFlag
      else getLinks rest retrievalLinks oemFlag)"
| "getLinks ((key, JNull) # rest) retrievalLinks oemFlag =
     (if key = ''@odata.id'' then None else getLinks rest retrievalLinks oemFlag)"
| "getLinks ((key, JBool b) # rest) retrievalLinks oemFlag =
     (if key = ''@odata.id'' then None else getLinks rest retrievalLinks oemFlag)"
| "getLinks ((key, JNum x) # rest) retrievalLinks oemFlag =
     (if key = ''@odata.id'' then None else getLinks rest retrievalLinks oemFlag)"
| "getLinks_members key [] retrievalLinks oemFlag = Some (retrievalLinks, oemFlag)"
| "getLinks_members key (JObj m # vs) retrievalLinks oemFlag =
     (let oemFlag' = (if EqualFold key ''Oem'' then True else oemFlag) in
      case getLinks m retrievalLinks oemFlag' of
        None \<Rightarrow> None
      | Some retrievalLinks' \<Rightarrow> getLinks_members key vs retrievalLinks' oemFlag')"
| "getLinks_members key (JNull # vs) retrievalLinks oemFlag = getLinks_members key vs retrievalLinks oemFlag"
| "getLinks_members key (JBool b # vs) retrievalLinks oemFlag = getLinks_members key vs retrievalLinks oemFlag"
| "getLinks_members key (JNum x # vs) retrievalLinks oemFlag = getLinks_members key vs retrievalLinks oemFlag"
| "getLinks_members key (JStr s # vs) retrievalLinks oemFlag = getLinks_members key vs retrievalLinks oemFlag"
| "getLinks_members key (JArr a # vs) retrievalLinks oemFlag = getLinks_members key vs retrievalLinks oemFlag"

definition checkRetrieval :: "env \<Rightarrow> string \<Rightarrow> string \<Rightarrow> string set \<Rightarrow> bool" where
  "checkRetrieval e oid parentoid traversedLinks =
     (if oid \<in> traversedLinks then False
      else if EqualFold parentoid oid \<or> EqualFold (parentoid @ ''/'') oid then False
      else if list_ex (\<lambda>resourceName. Contains parentoid resourceName) (SkipResourceListUnderOthers e)
        then False
      else True)"

text \<open>
  \<open>removeRetrievalLinks\<close> deletes entries while it ranges over the map; whether an entry is
  deleted depends on that entry alone, so the result is a filter.
\<close>

definition removeRetrievalLinks ::
  "(string \<times> bool) list \<Rightarrow> string \<Rightarrow> string list \<Rightarrow> string set \<Rightarrow> (string \<times> bool) list" where
  "removeRetrievalLinks retrievalLinks parentoid resourceList traversedLinks =
     filter (\<lambda>(resoureOID, oemFlag).
               \<not> (resoureOID \<in> traversedLinks
                  \<or> EqualFold parentoid resoureOID \<or> EqualFold (parentoid @ ''/'') resoureOID
                  \<or> list_ex (\<lambda>r. Contains resoureOID r) resourceList))
       retrievalLinks"

section \<open>The crawl: \<open>getResourceDetails\<close>\<close>

text \<open>
  \<open>respHolder\<close>: the fields of the same name in the source carry the prefix \<open>h\<close> where a
  field of \<open>responseStatus\<close> has that name. \<open>TraversedLinks\<close> is a \<open>map[string]bool\<close>
  that is only ever asked whether a key is present: the set of its keys.
  \<open>InventoryData\<close> is the list of the entries of the map.
\<close>

record respHolder =
  hErrorMessage :: string
  hStatusCode :: int32
  hStatusMessage :: statusMessage
  hMsgArgs :: "string list"
  SystemURL :: "string list"
  PluginResponse :: string
  TraversedLinks :: "string set"
  InventoryData :: "(string \<times> string) list"

text \<open>
  \<open>json.Unmarshal\<close> into a \<open>map[string]interface{}\<close>: an object gives its entries, \<open>null\<close>
  leaves the nil map, any other value is an error.
\<close>

definition unmarshalObject :: "env \<Rightarrow> string \<Rightarrow> string + (string \<times> json) list" where
  "unmarshalObject e body =
     (case Unmarshal e body of
        Inl err \<Rightarrow> Inl err
      | Inr (JObj m) \<Rightarrow> Inr m
      | Inr JNull \<Rightarrow> Inr []
      | Inr other \<Rightarrow> Inl ''json: cannot unmarshal into Go value of type map[string]interface {}'')"

definition bodyText :: "string option \<Rightarrow> string" where
  "bodyText body = (case body of None \<Rightarrow> [] | Some b \<Rightarrow> b)"

text \<open>Go's \<open>/\<close> on \<open>int32\<close> truncates towards zero; a zero divisor panics (\<open>None\<close>).\<close>

definition div32 :: "int32 \<Rightarrow> int32 \<Rightarrow> int32 option" where
  "div32 a b = (if b = 0 then None else Some (word_of_int (sint a sdiv sint b)))"

text \<open>
  The value stored under \<open>@Redfish.CollectionCapabilities\<close> for a volume collection. In the
  source it is a struct, which \<open>getLinks\<close> passes over; it only shows in the marshalled body.
\<close>

definition collectionCapabilities :: "string \<Rightarrow> json" where
  "collectionCapabilities oid =
     JObj [(''@odata.type'', JStr ''#CollectionCapabilities.v1_4_0.CollectionCapabilities''),
           (''Capabilities'',
            JArr [JObj [(''CapabilitiesObject'', JObj [(''@odata.id'', JStr (oid @ ''/Capabilities''))]),
                        (''Links'', JObj [(''TargetCollection'', JObj [(''@odata.id'', JStr oid)])]),
                        (''UseCase'', JStr ''VolumeCreation'')]])]"

text \<open>
  The middle of \<open>getResourceDetails\<close>: the key, the resource name, the capability stub of
  a volume collection, and the entry of \<open>InventoryData\<close>. \<open>keyFormation\<close> and
  \<open>getResourceName\<close> can panic.
\<close>

definition getResourceDetails_store ::
  "env \<Rightarrow> respHolder \<Rightarrow> getResourceRequest \<Rightarrow> string \<Rightarrow> (string \<times> json) list \<Rightarrow> respHolder option" where
  "getResourceDetails_store e h req body resourceData =
     (case (if Contains (OID req) ''/redfish/v1/Managers/'' \<or> Contains (OID req) ''/redfish/v1/Chassis/''
            then Some (ReplaceAll
                        (ReplaceAll (OID req) ''/redfish/v1/Managers/''
                           (''/redfish/v1/Managers/'' @ DeviceUUID req @ ''.''))
                        ''/redfish/v1/Chassis/'' (''/redfish/v1/Chassis/'' @ DeviceUUID req @ ''.''))
            else keyFormation (OID req) (SystemID req) (DeviceUUID req)) of
        None \<Rightarrow> None
      | Some oidKey \<Rightarrow>
          (let memberFlag = (map_of resourceData ''Members'' \<noteq> None) in
           case getResourceName (OID req) memberFlag of
             None \<Rightarrow> None
           | Some resourceName \<Rightarrow>
               (let body' =
                      (if memberFlag \<and> Contains resourceName ''VolumesCollection''
                       then Marshal e (AList.update ''@Redfish.CollectionCapabilities''
                                         (collectionCapabilities (OID req)) resourceData)
                       else body);
                    updatedResourceData = updateResourceDataWithUUID body' (DeviceUUID req)
                in Some (h\<lparr>InventoryData :=
                            AList.update (resourceName @ '':'' @ oidKey) updatedResourceData
                              (InventoryData h)\<rparr>))))"

text \<open>
  \<open>getResourceDetails\<close> calls itself for every link that passes \<open>checkRetrieval\<close>, and
  nothing in it bounds the depth. The first argument of the model is the number of nested
  calls still allowed. A run ends in \<open>Inl Panic\<close> when the source panics, in
  \<open>Inl DepthExceeded\<close> when it needs a deeper nesting than allowed, and in \<open>Inr\<close> with
  the calls made, the holder and the progress when it returns.
  \<open>getResourceDetails_loop\<close> is the loop over the links, with \<open>len(retrievalLinks)\<close> as
  its argument \<open>n\<close>.
\<close>

datatype crawlError = Panic | DepthExceeded

fun getResourceDetails ::
  "nat \<Rightarrow> env \<Rightarrow> history \<Rightarrow> respHolder \<Rightarrow> int32 \<Rightarrow> int32 \<Rightarrow> getResourceRequest
     \<Rightarrow> crawlError + (history \<times> respHolder \<times> int32)"
and getResourceDetails_loop ::
  "nat \<Rightarrow> env \<Rightarrow> history \<Rightarrow> respHolder \<Rightarrow> int32 \<Rightarrow> int32 \<Rightarrow> getResourceRequest \<Rightarrow> nat
     \<Rightarrow> (string \<times> bool) list \<Rightarrow> crawlError + (history \<times> respHolder \<times> int32)"
where
  "getResourceDetails 0 e w h progress alottedWork req = Inl DepthExceeded"
| "getResourceDetails (Suc depth) e w h progress alottedWork req =
     (let h1 = h\<lparr>TraversedLinks := insert (OID req) (TraversedLinks h)\<rparr> in
      case contactPlugin e w req (''error while trying to get the '' @ OID req @ '' details: '') of
        (w1, body, tok, getResponse, Some err) \<Rightarrow>
          Inr (w1, h1\<lparr>hErrorMessage := err, hStatusMessage := StatusMessage getResponse,
                      hMsgArgs := MsgArgs getResponse, hStatusCode := StatusCode getResponse\<rparr>,
               progress)
      | (w1, body, tok, getResponse, None) \<Rightarrow>
          (case unmarshalObject e (bodyText body) of
             Inl err \<Rightarrow>
               Inr (w1, h1\<lparr>hErrorMessage := ''error while trying unmarshal : '' @ err,
                           hStatusCode := 500, hStatusMessage := InternalError\<rparr>,
                    progress)
           | Inr resourceData \<Rightarrow>
               (case getResourceDetails_store e h1 req (bodyText body) resourceData of
                  None \<Rightarrow> Inl Panic
                | Some h2 \<Rightarrow>
                    (case getLinks resourceData [] (OemFlag req) of
                       None \<Rightarrow> Inl Panic
                     | Some retrievalLinks \<Rightarrow>
                         (case getResourceDetails_loop depth e w1 h2 progress alottedWork req
                                 (length retrievalLinks) (RangeOrder e retrievalLinks) of
                            Inl err \<Rightarrow> Inl err
                          | Inr (w2, h3, progress') \<Rightarrow> Inr (w2, h3, progress' + alottedWork))))))"
| "getResourceDetails_loop depth e w h progress alottedWork req n [] = Inr (w, h, progress)"
| "getResourceDetails_loop depth e w h progress alottedWork req n ((oid, oemFlag) # rest) =
     (if checkRetrieval e oid (OID req) (TraversedLinks h) then
        (case div32 alottedWork (of_nat n) of
           None \<Rightarrow> Inl Panic
         | Some estimatedWork \<Rightarrow>
             (case getResourceDetails depth e w h progress estimatedWork
                     (req\<lparr>OID := TrimSuffix oid ''/'', ParentOID := OID req, OemFlag := oemFlag\<rparr>) of
                Inl err \<Rightarrow> Inl err
              | Inr (w', h', progress') \<Rightarrow>
                  getResourceDetails_loop depth e w' h' progress' alottedWork req n rest))
      else getResourceDetails_loop depth e w h progress alottedWork req n rest)"


fun contactPaths :: "history \<Rightarrow> string list" where
  "contactPaths [] = []"
| "contactPaths (EvContactClient c # w) = callOdataID c # contactPaths w"
| "contactPaths (ev # w) = contactPaths w"

definition crawlFetches :: "crawlError + (history \<times> respHolder \<times> int32) \<Rightarrow> string list option" where
  "crawlFetches r = (case r of Inl err \<Rightarrow> None | Inr (w, h, progress) \<Rightarrow> Some (contactPaths w))"


section \<open>Example collaborators and requests\<close>

text \<open>
  Concrete environments for the examples further down: a plugin that refuses every
  connection, one that answers 401, one whose first call times out, and one that serves a
  telemetry member. The URL tables translate between \<open>/redfish\<close> (northbound) and
  \<open>/ODIM\<close> (southbound).
\<close>

definition exampleEnv :: env where
  "exampleEnv =
     \<lparr>ContactClient = (\<lambda>w c. Inl ''connection refused''),
      GetPluginStatus = (\<lambda>w p. False),
      GetResource = (\<lambda>w t k. []),
      CheckMetricRequest = (\<lambda>w k. Inr False),
      GenericSave = (\<lambda>w d t k. None),
      DeleteMetricRequest = (\<lambda>w k. None),
      Unmarshal = (\<lambda>s. Inl ''unexpected end of JSON input''),
      Marshal = (\<lambda>m. []),
      FormWildCard = (\<lambda>d j. Some (Inl ''wild card map is empty'')),
      SouthBoundURL = [(''redfish'', ''ODIM'')],
      NorthBoundURL = [(''ODIM'', ''redfish'')],
      SkipResourceListUnderSystem = [''Chassis'', ''Managers'', ''LogServices''],
      SkipResourceListUnderOthers = [''Power'', ''Thermal'', ''SmartStorage'', ''LogServices''],
      RangeOrder = (\<lambda>xs. xs)\<rparr>"

definition exampleRequest :: getResourceRequest where
  "exampleRequest =
     \<lparr>SystemID = [], DeviceUUID = ''d1'', DeviceInfo = [], LoginCredentials = [],
      ParentOID = [], OID = ''/redfish/v1/Systems/1'', OemFlag = False,
      ReqPlugin = \<lparr>IP = ''10.0.0.9'', Port = ''45001'', PreferredAuthType = ''BasicAuth''\<rparr>,
      HTTPMethodType = ''GET'', Token = [], StatusPoll = True, UpdateFlag = False,
      BMCAddress = ''10.0.0.5''\<rparr>"

definition okResponse :: "string \<Rightarrow> httpResponse" where
  "okResponse body = \<lparr>RespStatusCode = 200, RespHeaderGet = (\<lambda>h. []), RespBody = Inr body\<rparr>"






text \<open>
  A plugin that serves two resources of a system, \<open>Memory\<close> and \<open>Processors\<close>, each
  linking to the other with two trailing separators.
\<close>

definition emptyHolder :: respHolder where
  "emptyHolder = \<lparr>hErrorMessage = [], hStatusCode = 0, hStatusMessage = NoStatusMessage, hMsgArgs = [],
     SystemURL = [], PluginResponse = [], TraversedLinks = {}, InventoryData = []\<rparr>"

definition memoryOID :: string where
  "memoryOID = ''/redfish/v1/Systems/1/Memory''"

definition processorsOID :: string where
  "processorsOID = ''/redfish/v1/Systems/1/Processors''"

definition memoryDoc :: "(string \<times> json) list" where
  "memoryDoc = [(''@odata.id'', JStr ''/redfish/v1/Systems/1/Memory''),
                (''Related'', JObj [(''@odata.id'', JStr ''/redfish/v1/Systems/1/Processors//'')])]"

definition processorsDoc :: "(string \<times> json) list" where
  "processorsDoc = [(''@odata.id'', JStr ''/redfish/v1/Systems/1/Processors''),
                    (''Related'', JObj [(''@odata.id'', JStr ''/redfish/v1/Systems/1/Memory//'')])]"

definition envCycle :: env where
  \<open>envCycle = exampleEnv\<lparr>
     ContactClient := (\<lambda>w c.
       if callOdataID c = ''/ODIM/v1/Systems/1/Memory''
       then Inr (okResponse ''{"@odata.id":"/ODIM/v1/Systems/1/Memory","Related":{"@odata.id":"/ODIM/v1/Systems/1/Processors//"}}'')
       else if callOdataID c = ''/ODIM/v1/Systems/1/Processors''
       then Inr (okResponse ''{"@odata.id":"/ODIM/v1/Systems/1/Processors","Related":{"@odata.id":"/ODIM/v1/Systems/1/Memory//"}}'')
       else Inl ''no such resource''),
     Unmarshal := (\<lambda>s.
       if s = ''{"@odata.id":"/redfish/v1/Systems/1/Memory","Related":{"@odata.id":"/redfish/v1/Systems/1/Processors//"}}''
       then Inr (JObj memoryDoc)
       else if s = ''{"@odata.id":"/redfish/v1/Systems/1/Processors","Related":{"@odata.id":"/redfish/v1/Systems/1/Memory//"}}''
       then Inr (JObj processorsDoc)
       else Inl ''invalid character'')\<rparr>\<close>

definition cycleRequest :: getResourceRequest where
  "cycleRequest = exampleRequest\<lparr>OID := memoryOID, SystemID := ''1'', ParentOID := ''/redfish/v1/Systems/1''\<rparr>"





section \<open>Properties of the telemetry merge\<close>

lemma remdups_snoc: "remdups (ys @ [x]) = filter (\<lambda>y. y \<noteq> x) (remdups ys) @ [x]"
  by (induction ys) auto

lemma firstSeen_Cons:
  "rev (remdups (rev (x # xs))) = x # filter (\<lambda>y. y \<noteq> x) (rev (remdups (rev xs)))"
  by (simp add: remdups_snoc rev_filter)

lemma getSuperSet_loop_spec:
  assumes "None \<notin> set xs" "None \<notin> set result"
    and "\<And>s. existing s \<longleftrightarrow> s \<in> set (oids result)"
  shows "\<exists>r. getSuperSet_loop xs existing result = Some r \<and> None \<notin> set r \<and>
           oids r = oids result @ filter (\<lambda>s. s \<notin> set (oids result)) (rev (remdups (rev (oids xs))))"
  using assms
proof (induction xs arbitrary: existing result)
  case Nil
  then show ?case by (simp add: oids_def)
next
  case (Cons x xs)
  then obtain l where x: "x = Some l" by (cases x) auto
  have tl: "None \<notin> set xs" using Cons.prems(1) by simp
  have oc: "oids (x # xs) = Oid l # oids xs" by (simp add: oids_def x)
  show ?case
  proof (cases "existing (Oid l)")
    case True
    then have mem: "Oid l \<in> set (oids result)" using Cons.prems(3) by simp
    from Cons.IH [OF tl Cons.prems(2), of existing] Cons.prems(3)
    obtain r where r: "getSuperSet_loop xs existing result = Some r" "None \<notin> set r"
      "oids r = oids result @ filter (\<lambda>s. s \<notin> set (oids result)) (rev (remdups (rev (oids xs))))"
      by blast
    have "filter (\<lambda>s. s \<notin> set (oids result)) (filter (\<lambda>y. y \<noteq> Oid l) (rev (remdups (rev (oids xs)))))
        = filter (\<lambda>s. s \<notin> set (oids result)) (rev (remdups (rev (oids xs))))"
      using mem by (auto intro: filter_cong)
    then show ?thesis
      using r True mem unfolding oc firstSeen_Cons by (simp add: x)
  next
    case False
    then have nmem: "Oid l \<notin> set (oids result)" using Cons.prems(3) by simp
    have inv: "\<And>s. (existing(Oid l := True)) s \<longleftrightarrow> s \<in> set (oids (result @ [Some l]))"
      using Cons.prems(3) by (auto simp: oids_def)
    have nn: "None \<notin> set (result @ [Some l])" using Cons.prems(2) by simp
    from Cons.IH [OF tl nn inv]
    obtain r where r: "getSuperSet_loop xs (existing(Oid l := True)) (result @ [Some l]) = Some r"
      "None \<notin> set r"
      "oids r = oids (result @ [Some l]) @
         filter (\<lambda>s. s \<notin> set (oids (result @ [Some l]))) (rev (remdups (rev (oids xs))))"
      by blast
    have "filter (\<lambda>s. s \<notin> set (oids (result @ [Some l]))) (rev (remdups (rev (oids xs))))
        = filter (\<lambda>s. s \<notin> set (oids result)) (filter (\<lambda>y. y \<noteq> Oid l) (rev (remdups (rev (oids xs)))))"
      by (auto simp: oids_def intro: filter_cong)
    then show ?thesis
      using r False nmem unfolding oc firstSeen_Cons by (simp add: x oids_def)
  qed
qed

lemma oids_append: "oids (xs @ ys) = oids xs @ oids ys"
  by (simp add: oids_def)

text \<open>
  Claim C7 (amended). For member lists without nil members, \<open>getSuperSet\<close> returns the
  identifiers of both lists, each once, in the order of their first appearance in the
  first list followed by the second. Merging a list whose identifiers are pairwise distinct
  with itself gives back the same identifiers in the same order.
\<close>

theorem getSuperSet_first_seen_union:
  assumes "None \<notin> set X" and "None \<notin> set Y"
  shows "\<exists>r. getSuperSet X Y = Some r \<and> None \<notin> set r
           \<and> oids r = rev (remdups (rev (oids X @ oids Y)))
           \<and> (distinct (oids X) \<and> Y = X \<longrightarrow> oids r = oids X)"
proof -
  have "\<exists>r. getSuperSet_loop (X @ Y) (\<lambda>_. False) [] = Some r \<and> None \<notin> set r \<and>
           oids r = oids [] @ filter (\<lambda>s. s \<notin> set (oids [])) (rev (remdups (rev (oids (X @ Y)))))"
    by (rule getSuperSet_loop_spec) (use assms in \<open>simp_all add: oids_def\<close>)
  then obtain r where r0: "getSuperSet X Y = Some r" "None \<notin> set r"
    "oids r = oids [] @ filter (\<lambda>s. s \<notin> set (oids [])) (rev (remdups (rev (oids (X @ Y)))))"
    unfolding getSuperSet_def by blast
  have r3: "oids r = rev (remdups (rev (oids X @ oids Y)))"
    using r0(3) by (simp add: oids_def)
  note r = r0(1,2) r3
  have "oids r = oids X" if "distinct (oids X)" "Y = X"
  proof -
    have "remdups (rev (oids X) @ rev (oids X)) = remdups (rev (oids X))"
      by (rule remdups_append) simp
    then show ?thesis using r(3) that by (simp add: distinct_remdups_id)
  qed
  with r show ?thesis by blast
qed

text \<open>
  The theorem at the collections \<open>{a, b}\<close> and \<open>{b, c}\<close>, and at \<open>{a, b}\<close> merged with itself.
\<close>

theorem getSuperSet_first_seen_union_witness:
  "(\<exists>r. getSuperSet [Some \<lparr>Oid = ''a''\<rparr>, Some \<lparr>Oid = ''b''\<rparr>] [Some \<lparr>Oid = ''b''\<rparr>, Some \<lparr>Oid = ''c''\<rparr>] = Some r
      \<and> oids r = [''a'', ''b'', ''c''])
   \<and> (\<exists>r. getSuperSet [Some \<lparr>Oid = ''a''\<rparr>, Some \<lparr>Oid = ''b''\<rparr>] [Some \<lparr>Oid = ''a''\<rparr>, Some \<lparr>Oid = ''b''\<rparr>] = Some r
      \<and> oids r = [''a'', ''b''])"
  using getSuperSet_first_seen_union [of "[Some \<lparr>Oid = ''a''\<rparr>, Some \<lparr>Oid = ''b''\<rparr>]" "[Some \<lparr>Oid = ''b''\<rparr>, Some \<lparr>Oid = ''c''\<rparr>]"]
    getSuperSet_first_seen_union [of "[Some \<lparr>Oid = ''a''\<rparr>, Some \<lparr>Oid = ''b''\<rparr>]" "[Some \<lparr>Oid = ''a''\<rparr>, Some \<lparr>Oid = ''b''\<rparr>]"]
  by (auto simp: oids_def)

text \<open>
  Claim C7 as stated fails for a member list that repeats an identifier: merging
  \<open>[a, a]\<close> with itself yields \<open>[a]\<close>.
\<close>

theorem getSuperSet_self_merge_counterexample:
  "getSuperSet [Some \<lparr>Oid = ''a''\<rparr>, Some \<lparr>Oid = ''a''\<rparr>] [Some \<lparr>Oid = ''a''\<rparr>, Some \<lparr>Oid = ''a''\<rparr>]
     = Some [Some \<lparr>Oid = ''a''\<rparr>]
   \<and> oids [Some \<lparr>Oid = ''a''\<rparr>] \<noteq> oids [Some \<lparr>Oid = ''a''\<rparr>, Some \<lparr>Oid = ''a''\<rparr>]"
  by (simp add: getSuperSet_def oids_def)


section \<open>Properties of the resource key\<close>

lemma SplitChar_nonempty: "SplitChar c s \<noteq> []"
  by (induction s) (auto split: list.splits)


lemma Join_SplitChar: "Join (SplitChar c s) [c] = s"
proof (induction s)
  case Nil
  show ?case by simp
next
  case (Cons a s)
  obtain w ws where sp: "SplitChar c s = w # ws"
    using SplitChar_nonempty [of c s] by (cases "SplitChar c s") auto
  show ?case using Cons sp by (cases ws) auto
qed









lemma keyFormation_loop_eq:
  "keyFormation_loop str sid uuid is key =
     (if 0 \<in> set is \<and> str ! 0 = sid then None
      else Some (key @ map (keySegment str sid uuid) is))"
proof (induction "is" arbitrary: key)
  case Nil
  show ?case by simp
next
  case (Cons i rest)
  show ?case
    by (cases "i = 0") (auto simp: Cons keySegment_def Let_def)
qed

lemma keyFormation_eq:
  "keyFormation oid sid uuid =
     (if oid = [] \<or> pathSegments oid ! 0 = sid then None
      else Some (Join (map (keySegment (pathSegments oid) sid uuid) [0..<length (pathSegments oid)]) ''/''))"
proof -
  have "pathSegments oid \<noteq> []" by (simp add: pathSegments_def SplitChar_nonempty)
  then have "0 \<in> set [0..<length (pathSegments oid)]" by simp
  then show ?thesis
    unfolding keyFormation_def Let_def keyFormation_loop_eq by simp
qed






section \<open>Properties of the plugin contact and of the telemetry lock\<close>


lemma callPlugin_loop_snoc:
  "callPlugin_loop (rest @ [(key, v)]) reqOID oid = ReplaceAll reqOID key v"
  by (induction rest arbitrary: oid) auto

text \<open>
  Claim C10. \<open>callPlugin\<close> sends one request, whose URL is the plugin address followed by
  the translated path. With an empty southbound table the translated path is empty; with
  a table whose last visited entry is \<open>(key, v)\<close> it is \<open>req.OID\<close> with that entry alone
  applied, whatever the entries before it: every iteration starts again from \<open>req.OID\<close>.
\<close>

theorem callPlugin_last_entry_only:
  "\<exists>c. callPlugin e w req = (w @ [EvContactClient c], ContactClient e w c)
     \<and> callURL c = ''https://'' @ IP (ReqPlugin req) @ '':'' @ Port (ReqPlugin req) @ callOdataID c
     \<and> (SouthBoundURL e = [] \<longrightarrow> callOdataID c = [])
     \<and> (\<forall>rest key v. SouthBoundURL e = rest @ [(key, v)]
            \<longrightarrow> callOdataID c = ReplaceAll (OID req) key v)"
  by (auto simp: callPlugin_def Let_def getTranslationURL_def callPlugin_loop_snoc)

text \<open>
  With the two entries \<open>redfish \<mapsto> ODIM\<close> and \<open>Systems \<mapsto> systems\<close> the request goes to
  \<open>/redfish/v1/systems/1\<close>: only the second entry is applied. Applying both in turn, as the
  northbound loop does, would give \<open>/ODIM/v1/systems/1\<close>.
\<close>

theorem callPlugin_last_entry_only_witness:
  "\<exists>c. callPlugin (exampleEnv\<lparr>SouthBoundURL := [(''redfish'', ''ODIM''), (''Systems'', ''systems'')]\<rparr>) []
          exampleRequest
        = ([EvContactClient c], Inl ''connection refused'')
     \<and> callURL c = ''https://10.0.0.9:45001/redfish/v1/systems/1''
     \<and> northBound_loop [(''redfish'', ''ODIM''), (''Systems'', ''systems'')] ''/redfish/v1/Systems/1''
         = ''/ODIM/v1/systems/1''"
proof -
  have r: "ReplaceAll ''/redfish/v1/Systems/1'' ''Systems'' ''systems'' = ''/redfish/v1/systems/1''"
    by code_simp
  have n: "northBound_loop [(''redfish'', ''ODIM''), (''Systems'', ''systems'')] ''/redfish/v1/Systems/1''
         = ''/ODIM/v1/systems/1''"
    by code_simp
  from callPlugin_last_entry_only
    [of "exampleEnv\<lparr>SouthBoundURL := [(''redfish'', ''ODIM''), (''Systems'', ''systems'')]\<rparr>" "[]" exampleRequest]
  obtain c where c: "callPlugin (exampleEnv\<lparr>SouthBoundURL := [(''redfish'', ''ODIM''), (''Systems'', ''systems'')]\<rparr>) []
          exampleRequest = ([EvContactClient c], ContactClient (exampleEnv\<lparr>SouthBoundURL := [(''redfish'', ''ODIM''), (''Systems'', ''systems'')]\<rparr>) [] c)"
    "callURL c = ''https://'' @ IP (ReqPlugin exampleRequest) @ '':'' @ Port (ReqPlugin exampleRequest) @ callOdataID c"
    "\<forall>rest key v. SouthBoundURL (exampleEnv\<lparr>SouthBoundURL := [(''redfish'', ''ODIM''), (''Systems'', ''systems'')]\<rparr>) = rest @ [(key, v)]
            \<longrightarrow> callOdataID c = ReplaceAll (OID exampleRequest) key v"
    by auto
  from c(3) have "callOdataID c = ReplaceAll (OID exampleRequest) ''Systems'' ''systems''"
    by (simp add: exampleEnv_def)
  then have "callOdataID c = ''/redfish/v1/systems/1''" by (simp add: exampleRequest_def r)
  with c(1,2) n show ?thesis by (auto simp: exampleEnv_def exampleRequest_def)
qed




lemma pluginEvent_simps [simp]:
  "\<not> pluginEvent (EvCheckMetricRequest k r)"
  "\<not> pluginEvent (EvGenericSave d t k ok)"
  "\<not> pluginEvent (EvDeleteMetricRequest k ok)"
  "\<not> pluginEvent (EvGetResource t k)"
  by (simp_all add: pluginEvent_def)









section \<open>Properties of the crawl\<close>

lemma store_TraversedLinks:
  "getResourceDetails_store e h req body resourceData = Some h' \<Longrightarrow> TraversedLinks h' = TraversedLinks h"
  by (auto simp: getResourceDetails_store_def Let_def split: option.splits if_splits)

lemma cycle_south:
  "ReplaceAll memoryOID ''redfish'' ''ODIM'' = ''/ODIM/v1/Systems/1/Memory''"
  "ReplaceAll processorsOID ''redfish'' ''ODIM'' = ''/ODIM/v1/Systems/1/Processors''"
  by code_simp+

lemma cycle_north:
  \<open>ReplaceAll ''{"@odata.id":"/ODIM/v1/Systems/1/Memory","Related":{"@odata.id":"/ODIM/v1/Systems/1/Processors//"}}'' ''ODIM'' ''redfish''
     = ''{"@odata.id":"/redfish/v1/Systems/1/Memory","Related":{"@odata.id":"/redfish/v1/Systems/1/Processors//"}}''\<close>
  \<open>ReplaceAll ''{"@odata.id":"/ODIM/v1/Systems/1/Processors","Related":{"@odata.id":"/ODIM/v1/Systems/1/Memory//"}}'' ''ODIM'' ''redfish''
     = ''{"@odata.id":"/redfish/v1/Systems/1/Processors","Related":{"@odata.id":"/redfish/v1/Systems/1/Memory//"}}''\<close>
  by code_simp+

lemma cycle_contact:
  assumes "OID req = memoryOID \<or> OID req = processorsOID"
  shows \<open>\<exists>w1 tok resp. contactPlugin envCycle w req msg = (w1, Some (if OID req = memoryOID
           then ''{"@odata.id":"/redfish/v1/Systems/1/Memory","Related":{"@odata.id":"/redfish/v1/Systems/1/Processors//"}}''
           else ''{"@odata.id":"/redfish/v1/Systems/1/Processors","Related":{"@odata.id":"/redfish/v1/Systems/1/Memory//"}}''),
           tok, resp, None)\<close>
  using assms
  by (auto simp: contactPlugin_def contactPlugin_retry_def callPlugin_def Let_def envCycle_def
      exampleEnv_def getTranslationURL_def southBoundURL_def northBoundURL_def okResponse_def
      cycle_south cycle_north)

lemma cycle_unmarshal:
  \<open>unmarshalObject envCycle ''{"@odata.id":"/redfish/v1/Systems/1/Memory","Related":{"@odata.id":"/redfish/v1/Systems/1/Processors//"}}'' = Inr memoryDoc\<close>
  \<open>unmarshalObject envCycle ''{"@odata.id":"/redfish/v1/Systems/1/Processors","Related":{"@odata.id":"/redfish/v1/Systems/1/Memory//"}}'' = Inr processorsDoc\<close>
  by (simp_all add: unmarshalObject_def envCycle_def)

lemma cycle_links:
  "getLinks memoryDoc [] f = Some [(memoryOID, f), (processorsOID @ ''/'', f)]"
  "getLinks processorsDoc [] f = Some [(processorsOID, f), (memoryOID @ ''/'', f)]"
  by (cases f; code_simp)+

lemma cycle_store:
  assumes "OID req = memoryOID \<or> OID req = processorsOID" and "SystemID req \<noteq> []"
  shows "\<exists>h'. getResourceDetails_store envCycle h req body (if OID req = memoryOID then memoryDoc else processorsDoc) = Some h'"
proof -
  have seg: "pathSegments memoryOID ! 0 = []" "pathSegments processorsOID ! 0 = []"
    "memoryOID \<noteq> []" "processorsOID \<noteq> []"
    by code_simp+
  have c: "\<not> Contains memoryOID ''/redfish/v1/Managers/''" "\<not> Contains memoryOID ''/redfish/v1/Chassis/''"
    "\<not> Contains processorsOID ''/redfish/v1/Managers/''" "\<not> Contains processorsOID ''/redfish/v1/Chassis/''"
    by code_simp+
  have n: "getResourceName memoryOID False = Some ''Memory''"
    "getResourceName processorsOID False = Some ''Processors''"
    by code_simp+
  have m: "map_of memoryDoc ''Members'' = None" "map_of processorsDoc ''Members'' = None"
    by code_simp+
  have k: "keyFormation memoryOID (SystemID req) (DeviceUUID req) \<noteq> None"
    "keyFormation processorsOID (SystemID req) (DeviceUUID req) \<noteq> None"
    using assms(2) seg by (auto simp: keyFormation_eq)
  show ?thesis
    using assms(1) k by (auto simp: getResourceDetails_store_def c n m Let_def)
qed

lemma cycle_check:
  assumes "memoryOID @ ''/'' \<notin> T" "processorsOID @ ''/'' \<notin> T"
  shows "checkRetrieval envCycle (processorsOID @ ''/'') memoryOID T"
    and "checkRetrieval envCycle (memoryOID @ ''/'') processorsOID T"
proof -
  have a: "\<not> EqualFold memoryOID (processorsOID @ ''/'')" "\<not> EqualFold (memoryOID @ ''/'') (processorsOID @ ''/'')"
     "\<not> EqualFold processorsOID (memoryOID @ ''/'')" "\<not> EqualFold (processorsOID @ ''/'') (memoryOID @ ''/'')"
    by code_simp+
  have b: "\<not> list_ex (Contains memoryOID) (SkipResourceListUnderOthers envCycle)"
    "\<not> list_ex (Contains processorsOID) (SkipResourceListUnderOthers envCycle)"
    by code_simp+
  show "checkRetrieval envCycle (processorsOID @ ''/'') memoryOID T"
    and "checkRetrieval envCycle (memoryOID @ ''/'') processorsOID T"
    using assms a b by (simp_all add: checkRetrieval_def)
qed

lemma cycle_trim:
  "TrimSuffix (processorsOID @ ''/'') ''/'' = processorsOID"
  "TrimSuffix (memoryOID @ ''/'') ''/'' = memoryOID"
  by code_simp+

lemma cycle_distinct:
  "memoryOID \<noteq> processorsOID" "memoryOID \<noteq> processorsOID @ ''/''" "memoryOID \<noteq> memoryOID @ ''/''"
  "processorsOID \<noteq> memoryOID @ ''/''" "processorsOID \<noteq> processorsOID @ ''/''"
  by code_simp+

lemma cycle_diverges:
  assumes "OID req = memoryOID \<or> OID req = processorsOID" and "SystemID req \<noteq> []"
    and "memoryOID @ ''/'' \<notin> TraversedLinks h" and "processorsOID @ ''/'' \<notin> TraversedLinks h"
  shows "getResourceDetails depth envCycle w h progress alottedWork req = Inl DepthExceeded"
  using assms
proof (induction depth arbitrary: w h progress alottedWork req)
  case 0
  show ?case by simp
next
  case (Suc depth)
  define h1 where "h1 = h\<lparr>TraversedLinks := insert (OID req) (TraversedLinks h)\<rparr>"
  define doc where "doc = (if OID req = memoryOID then memoryDoc else processorsDoc)"
  define other where "other = (if OID req = memoryOID then processorsOID else memoryOID)"
  obtain w1 body tok resp where
    cp: "contactPlugin envCycle w req (''error while trying to get the '' @ OID req @ '' details: '')
           = (w1, Some body, tok, resp, None)"
    and um: "unmarshalObject envCycle body = Inr doc"
    using cycle_contact [OF Suc.prems(1), of w "''error while trying to get the '' @ OID req @ '' details: ''"]
      Suc.prems(1)
    by (auto simp: doc_def cycle_unmarshal cycle_distinct)
  obtain h2 where st: "getResourceDetails_store envCycle h1 req body doc = Some h2"
    using cycle_store [OF Suc.prems(1,2), of h1 body] by (auto simp: doc_def)
  have t2: "TraversedLinks h2 = insert (OID req) (TraversedLinks h)"
    using store_TraversedLinks [OF st] by (simp add: h1_def)
  have links: "getLinks doc [] (OemFlag req) = Some [(OID req, OemFlag req), (other @ ''/'', OemFlag req)]"
    using Suc.prems(1) by (auto simp: doc_def other_def cycle_links cycle_distinct)
  have ro: "RangeOrder envCycle xs = xs" for xs
    by (simp add: envCycle_def exampleEnv_def)
  have inv: "memoryOID @ ''/'' \<notin> TraversedLinks h2" "processorsOID @ ''/'' \<notin> TraversedLinks h2"
    using Suc.prems(1,3,4) cycle_distinct by (auto simp: t2)
  have skip: "\<not> checkRetrieval envCycle (OID req) (OID req) (TraversedLinks h2)"
    by (simp add: checkRetrieval_def t2)
  have go: "checkRetrieval envCycle (other @ ''/'') (OID req) (TraversedLinks h2)"
    using Suc.prems(1) cycle_check [OF inv] by (auto simp: other_def cycle_distinct)
  obtain est where est: "div32 alottedWork (of_nat (length [(OID req, OemFlag req), (other @ ''/'', OemFlag req)])) = Some est"
    by (simp add: div32_def)
  have child: "getResourceDetails depth envCycle w1 h2 progress est
                 (req\<lparr>OID := TrimSuffix (other @ ''/'') ''/'', ParentOID := OID req, OemFlag := OemFlag req\<rparr>)
               = Inl DepthExceeded"
    by (rule Suc.IH) (use Suc.prems(1,2) inv in \<open>auto simp: other_def cycle_trim\<close>)
  have loop: "getResourceDetails_loop depth envCycle w1 h2 progress alottedWork req
                (length [(OID req, OemFlag req), (other @ ''/'', OemFlag req)])
                [(OID req, OemFlag req), (other @ ''/'', OemFlag req)] = Inl DepthExceeded"
    using skip go est child by simp
  show ?case
    using cp um st links loop
    by (simp add: Let_def h1_def [symmetric] bodyText_def ro)
qed

text \<open>
  Claim C1 fails on the code. The documents of \<open>Memory\<close> and \<open>Processors\<close> link to each
  other with two trailing separators. \<open>getLinks\<close> cuts one of them off, \<open>checkRetrieval\<close>
  looks the result (still ending in a separator) up in \<open>TraversedLinks\<close>, where it never is,
  and \<open>getResourceDetails\<close> cuts the second one off before it fetches: whatever nesting
  depth is allowed, the crawl neither returns nor panics. When the plugin stops after
  three calls, the calls made show \<open>Memory\<close> fetched twice.
\<close>

theorem getResourceDetails_cycle_never_returns:
  "getResourceDetails depth envCycle [] emptyHolder 0 10 cycleRequest = Inl DepthExceeded
   \<and> crawlFetches
         (getResourceDetails 5
            (envCycle\<lparr>ContactClient :=
               (\<lambda>w c. if length w < 3 then ContactClient envCycle w c else Inl ''plugin stopped'')\<rparr>)
            [] emptyHolder 0 10 cycleRequest)
       = Some [''/ODIM/v1/Systems/1/Memory'', ''/ODIM/v1/Systems/1/Processors'',
               ''/ODIM/v1/Systems/1/Memory'', ''/ODIM/v1/Systems/1/Processors'']"
proof -
  have a: "getResourceDetails depth envCycle [] emptyHolder 0 10 cycleRequest = Inl DepthExceeded"
    by (rule cycle_diverges)
      (simp_all add: cycleRequest_def exampleRequest_def emptyHolder_def)
  have b: "crawlFetches
         (getResourceDetails 5
            (envCycle\<lparr>ContactClient :=
               (\<lambda>w c. if length w < 3 then ContactClient envCycle w c else Inl ''plugin stopped'')\<rparr>)
            [] emptyHolder 0 10 cycleRequest)
       = Some [''/ODIM/v1/Systems/1/Memory'', ''/ODIM/v1/Systems/1/Processors'',
               ''/ODIM/v1/Systems/1/Memory'', ''/ODIM/v1/Systems/1/Processors'']"
    by code_simp
  show ?thesis using a b by simp
qed












text \<open>
  Claim C8 fails on the code. \<open>getLinks\<close> assigns \<open>oemFlag\<close> inside its loop, so an
  entry visited after an \<open>Oem\<close> entry of the same object inherits the flag: the link under
  \<open>Storage\<close>, which has no \<open>Oem\<close> ancestor, is flagged when \<open>Oem\<close> is visited first and
  not flagged when it is visited last.
\<close>

theorem getLinks_oem_flag_depends_on_order:
  "getLinks [(''Oem'', JObj [(''@odata.id'', JStr ''/redfish/v1/Systems/1/Oem/X'')]),
             (''Storage'', JObj [(''@odata.id'', JStr ''/redfish/v1/Systems/1/Storage'')])] [] False
     = Some [(''/redfish/v1/Systems/1/Oem/X'', True), (''/redfish/v1/Systems/1/Storage'', True)]
   \<and> getLinks [(''Storage'', JObj [(''@odata.id'', JStr ''/redfish/v1/Systems/1/Storage'')]),
               (''Oem'', JObj [(''@odata.id'', JStr ''/redfish/v1/Systems/1/Oem/X'')])] [] False
     = Some [(''/redfish/v1/Systems/1/Storage'', False), (''/redfish/v1/Systems/1/Oem/X'', True)]"
  by code_simp

end
